theory Spec2Isabelle
  imports Complex_Main
begin

section \<open>Python values shared by the components\<close>

text \<open>
  Python floats are modelled as reals, Python ints as \<open>int\<close>. A dict whose values are
  floats (a polygon vertex, a location, an IMU sample) is an association list looked up
  with \<open>map_of\<close>; a missing key raises \<open>KeyError\<close>. Every exception the modelled
  code can raise is a constructor of \<open>py_error\<close>, and a function that can raise
  returns \<open>py_error + 'a\<close>.

  Arithmetic is exact. Float rounding can change two results of the source: the crossing
  abscissa \<open>xinters\<close> of the ray casting for a point next to an edge, and the haversine
  term \<open>a\<close>, which rounding can push above 1 near antipodal points, where
  \<open>math.sqrt(1 - a)\<close> raises. No statement below rests on either: the general
  theorems hold whatever the containment test and the distance return, and the concrete
  inputs are chosen so that the float operations they go through are exact.
\<close>

datatype py_error = IndexError | KeyError | ValueError | UnboundLocalError

type_synonym pydict = "(string \<times> real) list"

definition getitem :: "pydict \<Rightarrow> string \<Rightarrow> py_error + real" where
  "getitem d k = (case map_of d k of None \<Rightarrow> Inl KeyError | Some v \<Rightarrow> Inr v)"

text \<open>\<open>d.get(k, default)\<close>\<close>

definition get_default :: "pydict \<Rightarrow> string \<Rightarrow> real \<Rightarrow> real" where
  "get_default d k dflt = (case map_of d k of None \<Rightarrow> dflt | Some v \<Rightarrow> v)"

text \<open>\<open>math.sqrt\<close> raises \<open>ValueError\<close> (math domain error) on a negative argument.\<close>

definition py_sqrt :: "real \<Rightarrow> py_error + real" where
  "py_sqrt x = (if x < 0 then Inl ValueError else Inr (sqrt x))"

definition radians :: "real \<Rightarrow> real" where
  "radians d = d * pi / 180"

definition atan2 :: "real \<Rightarrow> real \<Rightarrow> real" where
  "atan2 y x =
     (if 0 < x then arctan (y / x)
      else if x < 0 \<and> 0 \<le> y then arctan (y / x) + pi
      else if x < 0 \<and> y < 0 then arctan (y / x) - pi
      else if 0 < y then pi / 2
      else if y < 0 then - (pi / 2)
      else 0)"


section \<open>The red zone store (\<open>fallback_systems/red_zone_fallback.py\<close>)\<close>

record red_zone =
  rz_id :: int
  rz_name :: string
  rz_type :: string
  coordinates :: "pydict list"
  risk_level :: int

text \<open>The zone list assigned by \<open>initialize\<close>.\<close>

definition vertex :: "real \<Rightarrow> real \<Rightarrow> pydict" where
  "vertex la lo = [(''lat'', la), (''lng'', lo)]"

definition seed_zones :: "red_zone list" where
  "seed_zones =
     [\<lparr>rz_id = 1, rz_name = ''Military Zone Alpha'', rz_type = ''Military'',
       coordinates = [vertex 26.9124 75.7873, vertex 26.9150 75.7900,
                      vertex 26.9100 75.7950, vertex 26.9080 75.7920],
       risk_level = 5\<rparr>,
      \<lparr>rz_id = 2, rz_name = ''Wildlife Sanctuary - Restricted Area'', rz_type = ''Wildlife'',
       coordinates = [vertex 26.9200 75.8000, vertex 26.9250 75.8050,
                      vertex 26.9200 75.8100, vertex 26.9150 75.8050],
       risk_level = 3\<rparr>,
      \<lparr>rz_id = 3, rz_name = ''Border Security Zone'', rz_type = ''Border'',
       coordinates = [vertex 28.0000 70.5000, vertex 28.0200 70.5200,
                      vertex 28.0100 70.5400, vertex 27.9900 70.5200],
       risk_level = 4\<rparr>,
      \<lparr>rz_id = 4, rz_name = ''Mining Area - Dangerous'', rz_type = ''Industrial'',
       coordinates = [vertex 25.5000 74.5000, vertex 25.5100 74.5100,
                      vertex 25.5050 74.5200, vertex 25.4950 74.5100],
       risk_level = 3\<rparr>]"

subsection \<open>\<open>_point_in_polygon_ray_casting\<close>\<close>

text \<open>
  The loop variables. \<open>xinters\<close> is assigned only under \<open>p1y != p2y\<close>, so it is
  unbound until then and keeps its last value afterwards.
\<close>

record ray_state =
  p1x :: real
  p1y :: real
  xinters :: "real option"
  inside :: bool

text \<open>One iteration of the loop body, for the vertex \<open>polygon[i % n]\<close>.\<close>

definition ray_step :: "real \<Rightarrow> real \<Rightarrow> pydict \<Rightarrow> ray_state \<Rightarrow> py_error + ray_state" where
  "ray_step x y v s =
     (case getitem v ''lng'' of Inl e \<Rightarrow> Inl e | Inr p2x \<Rightarrow>
      case getitem v ''lat'' of Inl e \<Rightarrow> Inl e | Inr p2y \<Rightarrow>
        if min (p1y s) p2y < y \<and> y \<le> max (p1y s) p2y \<and> x \<le> max (p1x s) p2x then
          (let xi = (if p1y s = p2y then xinters s
                     else Some ((y - p1y s) * (p2x - p1x s) / (p2y - p1y s) + p1x s))
           in if p1x s = p2x
              then Inr \<lparr>p1x = p2x, p1y = p2y, xinters = xi, inside = (\<not> inside s)\<rparr>
              else (case xi of
                      None \<Rightarrow> Inl UnboundLocalError
                    | Some xv \<Rightarrow>
                        Inr \<lparr>p1x = p2x, p1y = p2y, xinters = xi,
                             inside = (if x \<le> xv then \<not> inside s else inside s)\<rparr>))
        else Inr \<lparr>p1x = p2x, p1y = p2y, xinters = xinters s, inside = inside s\<rparr>)"

text \<open>\<open>for i in range(1, n + 1)\<close>, over the list of the indices still to visit.\<close>

fun ray_loop :: "real \<Rightarrow> real \<Rightarrow> pydict list \<Rightarrow> nat list \<Rightarrow> ray_state \<Rightarrow> py_error + ray_state" where
  "ray_loop x y polygon [] s = Inr s"
| "ray_loop x y polygon (i # rest) s =
     (case ray_step x y (polygon ! (i mod length polygon)) s of
        Inl e \<Rightarrow> Inl e
      | Inr s' \<Rightarrow> ray_loop x y polygon rest s')"

definition point_in_polygon_ray_casting :: "real \<Rightarrow> real \<Rightarrow> pydict list \<Rightarrow> py_error + bool" where
  "point_in_polygon_ray_casting lat lng polygon =
     (case polygon of
        [] \<Rightarrow> Inl IndexError
      | v0 # _ \<Rightarrow>
          (case getitem v0 ''lng'' of Inl e \<Rightarrow> Inl e | Inr x0 \<Rightarrow>
           case getitem v0 ''lat'' of Inl e \<Rightarrow> Inl e | Inr y0 \<Rightarrow>
           case ray_loop lng lat polygon [1 ..< length polygon + 1]
                  \<lparr>p1x = x0, p1y = y0, xinters = None, inside = False\<rparr> of
             Inl e \<Rightarrow> Inl e
           | Inr s \<Rightarrow> Inr (inside s)))"

subsection \<open>\<open>check_point_in_polygon\<close> and \<open>get_zone_info\<close>\<close>

text \<open>The body of the \<open>try\<close> block: the first zone that contains the point ends the loop.\<close>

fun check_point_in_polygon_try :: "red_zone list \<Rightarrow> real \<Rightarrow> real \<Rightarrow> py_error + bool" where
  "check_point_in_polygon_try [] lat lng = Inr False"
| "check_point_in_polygon_try (zone # rest) lat lng =
     (case point_in_polygon_ray_casting lat lng (coordinates zone) of
        Inl e \<Rightarrow> Inl e
      | Inr b \<Rightarrow> if b then Inr True else check_point_in_polygon_try rest lat lng)"

text \<open>\<open>except Exception: return False\<close>\<close>

definition check_point_in_polygon :: "red_zone list \<Rightarrow> real \<Rightarrow> real \<Rightarrow> bool" where
  "check_point_in_polygon red_zones lat lng =
     (case check_point_in_polygon_try red_zones lat lng of Inl e \<Rightarrow> False | Inr b \<Rightarrow> b)"






subsection \<open>\<open>add_zone\<close> and \<open>remove_zone\<close>\<close>

text \<open>
  The argument of \<open>add_zone\<close> is a dict read with \<open>.get(key, default)\<close>: a field is
  \<open>None\<close> when the key is absent. Both operations return their success flag and the
  new zone list.
\<close>

record zone_data =
  zd_name :: "string option"
  zd_type :: "string option"
  zd_coordinates :: "pydict list option"
  zd_risk_level :: "int option"

definition add_zone :: "red_zone list \<Rightarrow> zone_data \<Rightarrow> bool \<times> red_zone list" where
  "add_zone red_zones zd =
     (let new_zone =
            \<lparr>rz_id = int (length red_zones) + 1,
             rz_name = (case zd_name zd of None \<Rightarrow> ''New Zone'' | Some n \<Rightarrow> n),
             rz_type = (case zd_type zd of None \<Rightarrow> ''Custom'' | Some t \<Rightarrow> t),
             coordinates = (case zd_coordinates zd of None \<Rightarrow> [] | Some c \<Rightarrow> c),
             risk_level = (case zd_risk_level zd of None \<Rightarrow> 3 | Some r \<Rightarrow> r)\<rparr>
      in if length (coordinates new_zone) < 3 then (False, red_zones)
         else (True, red_zones @ [new_zone]))"

definition remove_zone :: "red_zone list \<Rightarrow> int \<Rightarrow> bool \<times> red_zone list" where
  "remove_zone red_zones zid = (True, filter (\<lambda>zone. rz_id zone \<noteq> zid) red_zones)"


section \<open>The point-in-polygon test of \<open>utils/geo_utils.py\<close>\<close>

text \<open>
  After its guard on the vertex count, \<open>GeoUtils.point_in_polygon\<close> runs the same loop,
  statement for statement, as \<open>_point_in_polygon_ray_casting\<close>, inside
  \<open>try ... except Exception: return False\<close>.
\<close>

definition point_in_polygon :: "real \<Rightarrow> real \<Rightarrow> pydict list \<Rightarrow> bool" where
  "point_in_polygon lat lon polygon =
     (if length polygon < 3 then False
      else case point_in_polygon_ray_casting lat lon polygon of Inl e \<Rightarrow> False | Inr b \<Rightarrow> b)"


section \<open>The rule-based detectors (\<open>fallback_systems/rule_based_fallback.py\<close>)\<close>

text \<open>
  Time is a real number of seconds; a \<open>datetime\<close> is its distance from a fixed epoch and a
  \<open>timedelta\<close> a difference. One call reads the clock several times
  (\<open>datetime.utcnow()\<close>); the model passes a single value \<open>now\<close> for all the reads of
  one call.
\<close>

subsection \<open>Thresholds set by \<open>initialize\<close>\<close>

record fall_thresholds =
  freefall_g_min :: real
  freefall_g_max :: real
  impact_g_threshold :: real
  freefall_duration_min :: real
  stillness_threshold :: real
  stillness_duration :: real

record crash_thresholds =
  min_vehicle_speed :: real
  deceleration_threshold :: real
  crash_impact_g_threshold :: real
  speed_drop_percentage :: real
  time_window :: real

record distress_thresholds =
  stationary_duration :: real
  erratic_movement_threshold :: real
  unusual_location_radius :: real
  signal_loss_duration :: real

definition fall_thresholds_init :: fall_thresholds where
  "fall_thresholds_init =
     \<lparr>freefall_g_min = 0.5, freefall_g_max = 2.0, impact_g_threshold = 15.0,
      freefall_duration_min = 0.3, stillness_threshold = 2.0, stillness_duration = 3.0\<rparr>"

definition crash_thresholds_init :: crash_thresholds where
  "crash_thresholds_init =
     \<lparr>min_vehicle_speed = 25.0, deceleration_threshold = - 8.0,
      crash_impact_g_threshold = 20.0, speed_drop_percentage = 0.8, time_window = 3.0\<rparr>"

definition distress_thresholds_init :: distress_thresholds where
  "distress_thresholds_init =
     \<lparr>stationary_duration = 4.0, erratic_movement_threshold = 5,
      unusual_location_radius = 2.0, signal_loss_duration = 2.0\<rparr>"

subsection \<open>Sensor data, the per-user buffer and alerts\<close>

text \<open>
  \<open>sensor_data\<close> is read with \<open>.get('imu_data')\<close>, \<open>.get('imu_data', [])\<close>,
  \<open>.get('location')\<close> and \<open>.get('location', {})\<close>, always through a truth test or a
  default: an absent key and an empty value behave alike, so the empty list stands for
  both.
\<close>

record sensor_data =
  imu_data :: "pydict list"
  location :: pydict

record history_item =
  h_timestamp :: real
  h_sensor_data :: sensor_data

record location_item =
  l_timestamp :: real
  l_location :: pydict

record user_buffer =
  data_history :: "history_item list"
  locations :: "location_item list"
  last_activity :: real

type_synonym user_data_buffer = "string \<rightharpoonup> user_buffer"

datatype alert_details =
    FallDetails real real string
  | CrashDetails real real real real
  | DistressDetails "string list" bool

record alert =
  user_id :: string
  alert_type :: string
  priority :: string
  confidence :: real
  message :: string
  detection_method :: string
  timestamp :: real
  details :: alert_details

text \<open>\<open>xs[-n:]\<close> for a positive \<open>n\<close>.\<close>

definition lastn :: "nat \<Rightarrow> 'a list \<Rightarrow> 'a list" where
  "lastn n xs = drop (length xs - n) xs"

text \<open>\<open>max(xs)\<close> and \<open>min(xs)\<close> of a list raise \<open>ValueError\<close> on the empty list.\<close>

definition py_max :: "real list \<Rightarrow> py_error + real" where
  "py_max xs = (case xs of [] \<Rightarrow> Inl ValueError | x # rest \<Rightarrow> Inr (fold max rest x))"

definition py_min :: "real list \<Rightarrow> py_error + real" where
  "py_min xs = (case xs of [] \<Rightarrow> Inl ValueError | x # rest \<Rightarrow> Inr (fold min rest x))"

subsection \<open>\<open>_update_user_buffer\<close>, \<open>_get_recent_user_data\<close>, \<open>_get_user_history\<close>\<close>

definition update_user_buffer :: "user_data_buffer \<Rightarrow> string \<Rightarrow> real \<Rightarrow> sensor_data \<Rightarrow> user_data_buffer" where
  "update_user_buffer buf uid now sd =
     (let buffer = (case buf uid of
                      None \<Rightarrow> \<lparr>data_history = [], locations = [], last_activity = now\<rparr>
                    | Some b \<Rightarrow> b);
          appended = data_history buffer @ [\<lparr>h_timestamp = now, h_sensor_data = sd\<rparr>];
          cutoff_time = now - 24 * 3600;
          kept = filter (\<lambda>item. cutoff_time < h_timestamp item) appended;
          locs = (if location sd \<noteq> []
                  then lastn 100 (locations buffer @ [\<lparr>l_timestamp = now, l_location = location sd\<rparr>])
                  else locations buffer)
      in buf(uid \<mapsto> \<lparr>data_history = kept, locations = locs, last_activity = now\<rparr>))"

definition get_recent_user_data :: "user_data_buffer \<Rightarrow> string \<Rightarrow> real \<Rightarrow> real \<Rightarrow> sensor_data list" where
  "get_recent_user_data buf uid now seconds =
     (case buf uid of
        None \<Rightarrow> []
      | Some b \<Rightarrow> map h_sensor_data (filter (\<lambda>item. now - seconds < h_timestamp item) (data_history b)))"

definition get_user_history :: "user_data_buffer \<Rightarrow> string \<Rightarrow> history_item list \<times> location_item list" where
  "get_user_history buf uid =
     (case buf uid of None \<Rightarrow> ([], []) | Some b \<Rightarrow> (data_history b, locations b))"

subsection \<open>\<open>_detect_fall_rule_based\<close>\<close>

definition magnitude :: "pydict \<Rightarrow> py_error + real" where
  "magnitude sample =
     (case getitem sample ''acceleration_x'' of Inl e \<Rightarrow> Inl e | Inr ax \<Rightarrow>
      case getitem sample ''acceleration_y'' of Inl e \<Rightarrow> Inl e | Inr ay \<Rightarrow>
      case getitem sample ''acceleration_z'' of Inl e \<Rightarrow> Inl e | Inr az \<Rightarrow>
        py_sqrt (ax\<^sup>2 + ay\<^sup>2 + az\<^sup>2))"

fun magnitudes :: "pydict list \<Rightarrow> py_error + real list" where
  "magnitudes [] = Inr []"
| "magnitudes (sample # rest) =
     (case magnitude sample of Inl e \<Rightarrow> Inl e | Inr m \<Rightarrow>
      case magnitudes rest of Inl e \<Rightarrow> Inl e | Inr ms \<Rightarrow> Inr (m # ms))"

text \<open>
  The scan \<open>for i in range(len(magnitudes) - 5)\<close> over the start offsets still to try;
  the result is \<open>(fall_detected, confidence)\<close>, and a match ends the loop (\<open>break\<close>).
\<close>

fun fall_scan :: "fall_thresholds \<Rightarrow> real list \<Rightarrow> nat list \<Rightarrow> bool \<times> real" where
  "fall_scan th ms [] = (False, 0.0)"
| "fall_scan th ms (i # rest) =
     (if list_all (\<lambda>g. g < freefall_g_max th) (take 3 (drop i ms))
         \<and> list_ex (\<lambda>g. impact_g_threshold th < g) (take 2 (drop (i + 3) ms))
         \<and> i + 10 < length ms
         \<and> list_all (\<lambda>g. g < stillness_threshold th) (take 5 (drop (i + 5) ms))
      then (True, 0.75)
      else fall_scan th ms rest)"

definition detect_fall_rule_based :: "fall_thresholds \<Rightarrow> string \<Rightarrow> real \<Rightarrow> pydict list \<Rightarrow> alert option" where
  "detect_fall_rule_based th uid now imu =
     (if length imu < 10 then None
      else case magnitudes imu of Inl e \<Rightarrow> None | Inr ms \<Rightarrow>
        (case fall_scan th ms [0 ..< length ms - 5] of (fall_detected, conf) \<Rightarrow>
           if fall_detected then
             (case py_max ms of Inl e \<Rightarrow> None | Inr mx \<Rightarrow>
              case py_min ms of Inl e \<Rightarrow> None | Inr mn \<Rightarrow>
                Some \<lparr>user_id = uid, alert_type = ''fall_detected'', priority = ''critical'',
                      confidence = conf, message = ''Fall detected using rule-based system'',
                      detection_method = ''rule_based'', timestamp = now,
                      details = FallDetails mx mn ''freefall_impact_stillness''\<rparr>)
           else None))"

subsection \<open>\<open>_detect_crash_rule_based\<close>\<close>

text \<open>\<open>speeds\<close>: the speed of each of the last five recent entries, 0 where there is none.\<close>

definition recent_speeds :: "sensor_data list \<Rightarrow> real list" where
  "recent_speeds recent_data = map (\<lambda>d. get_default (location d) ''speed'' 0) (lastn 5 recent_data)"

definition max_recent_speed :: "real list \<Rightarrow> real" where
  "max_recent_speed speeds = (case py_max speeds of Inl e \<Rightarrow> 0 | Inr m \<Rightarrow> m)"

text \<open>The loop over \<open>imu_data[-10:]\<close>, from the running maximum \<open>max_g_force\<close>.\<close>

fun max_g_force_loop :: "pydict list \<Rightarrow> real \<Rightarrow> py_error + real" where
  "max_g_force_loop [] max_g_force = Inr max_g_force"
| "max_g_force_loop (sample # rest) max_g_force =
     (case magnitude sample of Inl e \<Rightarrow> Inl e
      | Inr g_force \<Rightarrow> max_g_force_loop rest (max max_g_force g_force))"

definition detect_crash_rule_based ::
    "crash_thresholds \<Rightarrow> user_data_buffer \<Rightarrow> string \<Rightarrow> real \<Rightarrow> sensor_data \<Rightarrow> alert option" where
  "detect_crash_rule_based th buf uid now sd =
     (let recent_data = get_recent_user_data buf uid now 30 in
      if length recent_data < 5 then None
      else
        let speeds = recent_speeds recent_data in
        if max_recent_speed speeds < min_vehicle_speed th then None
        else if 2 \<le> length speeds then
          (let speed_change = last speeds - hd speeds;
               time_diff = 5.0;
               deceleration = speed_change / time_diff * 3.6
           in if deceleration < deceleration_threshold th then
                (case max_g_force_loop (lastn 10 (imu_data sd)) 0 of
                   Inl e \<Rightarrow> None
                 | Inr max_g_force \<Rightarrow>
                     if crash_impact_g_threshold th < max_g_force then
                       Some \<lparr>user_id = uid, alert_type = ''crash_detected'', priority = ''critical'',
                             confidence = 0.8,
                             message = ''Vehicle crash detected using rule-based system'',
                             detection_method = ''rule_based'', timestamp = now,
                             details = CrashDetails max_g_force deceleration (hd speeds) (last speeds)\<rparr>
                     else None)
              else None)
        else None)"

subsection \<open>The four distress indicators\<close>

text \<open>
  \<open>_calculate_distance\<close>, the haversine formula. Over the reals \<open>a\<close> lies between 0
  and 1, so neither square root raises here.
\<close>

definition calculate_distance :: "real \<Rightarrow> real \<Rightarrow> real \<Rightarrow> real \<Rightarrow> py_error + real" where
  "calculate_distance lat1 lng1 lat2 lng2 =
     (let lat1_rad = radians lat1; lng1_rad = radians lng1;
          lat2_rad = radians lat2; lng2_rad = radians lng2;
          dlat = lat2_rad - lat1_rad; dlng = lng2_rad - lng1_rad;
          a = (sin (dlat / 2))\<^sup>2 + cos lat1_rad * cos lat2_rad * (sin (dlng / 2))\<^sup>2
      in case py_sqrt a of Inl e \<Rightarrow> Inl e | Inr sa \<Rightarrow>
         case py_sqrt (1 - a) of Inl e \<Rightarrow> Inl e | Inr sb \<Rightarrow>
           Inr (6371 * (2 * atan2 sa sb)))"

text \<open>\<open>sum(loc[key] for loc in locations)\<close>: the first entry without the key raises.\<close>

fun sum_key :: "string \<Rightarrow> pydict list \<Rightarrow> py_error + real" where
  "sum_key k [] = Inr 0"
| "sum_key k (p # ps) =
     (case getitem p k of Inl e \<Rightarrow> Inl e | Inr v \<Rightarrow>
      case sum_key k ps of Inl e \<Rightarrow> Inl e | Inr t \<Rightarrow> Inr (v + t))"

definition check_prolonged_inactivity_try :: "user_data_buffer \<Rightarrow> string \<Rightarrow> real \<Rightarrow> py_error + bool" where
  "check_prolonged_inactivity_try buf uid threshold_hours =
     (let locs = snd (get_user_history buf uid) in
      if locs = [] then Inr False
      else
        let recent_locations = lastn 20 locs in
        if length recent_locations < 2 then Inr False
        else
          let first_location = l_location (hd recent_locations);
              last_location = l_location (last recent_locations)
          in case getitem first_location ''latitude'' of Inl e \<Rightarrow> Inl e | Inr lat1 \<Rightarrow>
             case getitem first_location ''longitude'' of Inl e \<Rightarrow> Inl e | Inr lng1 \<Rightarrow>
             case getitem last_location ''latitude'' of Inl e \<Rightarrow> Inl e | Inr lat2 \<Rightarrow>
             case getitem last_location ''longitude'' of Inl e \<Rightarrow> Inl e | Inr lng2 \<Rightarrow>
             case calculate_distance lat1 lng1 lat2 lng2 of Inl e \<Rightarrow> Inl e | Inr distance \<Rightarrow>
               (let time_diff = (l_timestamp (last recent_locations)
                                  - l_timestamp (hd recent_locations)) / 3600
                in Inr (distance < 0.1 \<and> threshold_hours < time_diff)))"

definition check_prolonged_inactivity :: "user_data_buffer \<Rightarrow> string \<Rightarrow> real \<Rightarrow> bool" where
  "check_prolonged_inactivity buf uid threshold_hours =
     (case check_prolonged_inactivity_try buf uid threshold_hours of Inl e \<Rightarrow> False | Inr b \<Rightarrow> b)"

text \<open>\<open>x % 360\<close> on floats: the result has the sign of the divisor.\<close>

definition mod360 :: "real \<Rightarrow> real" where
  "mod360 x = x - 360 * of_int \<lfloor>x / 360\<rfloor>"

definition degrees :: "real \<Rightarrow> real" where
  "degrees r = r * 180 / pi"

definition calculate_bearing :: "pydict \<Rightarrow> pydict \<Rightarrow> py_error + real" where
  "calculate_bearing location1 location2 =
     (case getitem location1 ''latitude'' of Inl e \<Rightarrow> Inl e | Inr la1 \<Rightarrow>
      case getitem location2 ''latitude'' of Inl e \<Rightarrow> Inl e | Inr la2 \<Rightarrow>
      case getitem location2 ''longitude'' of Inl e \<Rightarrow> Inl e | Inr lo2 \<Rightarrow>
      case getitem location1 ''longitude'' of Inl e \<Rightarrow> Inl e | Inr lo1 \<Rightarrow>
        (let lat1 = radians la1; lat2 = radians la2; dlng = radians (lo2 - lo1);
             y = sin dlng * cos lat2;
             x = cos lat1 * sin lat2 - sin lat1 * cos lat2 * cos dlng;
             bearing = atan2 y x
         in Inr (mod360 (degrees bearing + 360))))"

text \<open>The loop \<open>for i in range(2, len(locations))\<close>, counting the direction changes.\<close>

fun direction_changes_loop :: "location_item list \<Rightarrow> nat list \<Rightarrow> nat \<Rightarrow> py_error + nat" where
  "direction_changes_loop locs [] direction_changes = Inr direction_changes"
| "direction_changes_loop locs (i # rest) direction_changes =
     (case calculate_bearing (l_location (locs ! (i - 2))) (l_location (locs ! (i - 1))) of
        Inl e \<Rightarrow> Inl e | Inr bearing1 \<Rightarrow>
      case calculate_bearing (l_location (locs ! (i - 1))) (l_location (locs ! i)) of
        Inl e \<Rightarrow> Inl e | Inr bearing2 \<Rightarrow>
        (let d = \<bar>bearing2 - bearing1\<bar>;
             bearing_diff = (if 180 < d then 360 - d else d)
         in direction_changes_loop locs rest
              (if 45 < bearing_diff then direction_changes + 1 else direction_changes)))"

definition check_erratic_movement_try :: "user_data_buffer \<Rightarrow> string \<Rightarrow> py_error + bool" where
  "check_erratic_movement_try buf uid =
     (let locs = lastn 10 (snd (get_user_history buf uid)) in
      if length locs < 5 then Inr False
      else case direction_changes_loop locs [2 ..< length locs] 0 of
             Inl e \<Rightarrow> Inl e
           | Inr direction_changes \<Rightarrow> Inr (real (length locs) * 0.6 < real direction_changes))"

definition check_erratic_movement :: "user_data_buffer \<Rightarrow> string \<Rightarrow> bool" where
  "check_erratic_movement buf uid =
     (case check_erratic_movement_try buf uid of Inl e \<Rightarrow> False | Inr b \<Rightarrow> b)"

definition check_unusual_location_try :: "user_data_buffer \<Rightarrow> string \<Rightarrow> pydict \<Rightarrow> py_error + bool" where
  "check_unusual_location_try buf uid current_location =
     (let locs = map l_location (snd (get_user_history buf uid)) in
      if length locs < 10 then Inr False
      else case sum_key ''latitude'' locs of Inl e \<Rightarrow> Inl e | Inr lat_sum \<Rightarrow>
           case sum_key ''longitude'' locs of Inl e \<Rightarrow> Inl e | Inr lng_sum \<Rightarrow>
           case getitem current_location ''latitude'' of Inl e \<Rightarrow> Inl e | Inr clat \<Rightarrow>
           case getitem current_location ''longitude'' of Inl e \<Rightarrow> Inl e | Inr clng \<Rightarrow>
           case calculate_distance clat clng (lat_sum / real (length locs))
                  (lng_sum / real (length locs)) of
             Inl e \<Rightarrow> Inl e
           | Inr distance \<Rightarrow> Inr (10.0 < distance))"

definition check_unusual_location :: "user_data_buffer \<Rightarrow> string \<Rightarrow> pydict \<Rightarrow> bool" where
  "check_unusual_location buf uid current_location =
     (case check_unusual_location_try buf uid current_location of Inl e \<Rightarrow> False | Inr b \<Rightarrow> b)"

text \<open>The loop over the consecutive pairs of \<open>recent_data\<close>: the first long gap returns.\<close>

fun gap_loop :: "history_item list \<Rightarrow> bool" where
  "gap_loop (a # b # rest) =
     (if 1800 < h_timestamp b - h_timestamp a then True else gap_loop (b # rest))"
| "gap_loop _ = False"

definition check_signal_loss_pattern :: "user_data_buffer \<Rightarrow> string \<Rightarrow> bool" where
  "check_signal_loss_pattern buf uid =
     (let hist = fst (get_user_history buf uid) in
      if length hist < 5 then False else gap_loop (lastn 10 hist))"

subsection \<open>\<open>_detect_distress_rule_based\<close>\<close>

fun join :: "string \<Rightarrow> string list \<Rightarrow> string" where
  "join sep [] = []"
| "join sep [x] = x"
| "join sep (x # y # rest) = x @ sep @ join sep (y # rest)"

text \<open>One \<open>if check: distress_indicators.append(name); confidence += w\<close>.\<close>

definition add_indicator :: "bool \<Rightarrow> string \<Rightarrow> real \<Rightarrow> string list \<times> real \<Rightarrow> string list \<times> real" where
  "add_indicator holds nm w acc =
     (if holds then (fst acc @ [nm], snd acc + w) else acc)"

definition detect_distress_rule_based ::
    "distress_thresholds \<Rightarrow> user_data_buffer \<Rightarrow> string \<Rightarrow> real \<Rightarrow> sensor_data \<Rightarrow> alert option" where
  "detect_distress_rule_based th buf uid now sd =
     (let acc0 = ([], 0.0);
          acc1 = add_indicator (check_prolonged_inactivity buf uid (stationary_duration th))
                   ''prolonged_inactivity'' 0.3 acc0;
          acc2 = add_indicator (check_erratic_movement buf uid) ''erratic_movement'' 0.2 acc1;
          acc3 = (if location sd \<noteq> []
                  then add_indicator (check_unusual_location buf uid (location sd))
                         ''unusual_location'' 0.3 acc2
                  else acc2);
          acc4 = add_indicator (check_signal_loss_pattern buf uid) ''signal_loss_pattern'' 0.2 acc3;
          distress_indicators = fst acc4;
          conf = snd acc4
      in if 2 \<le> length distress_indicators \<or> 0.5 < conf then
           Some \<lparr>user_id = uid, alert_type = ''distress_detected'', priority = ''medium'',
                 confidence = min conf 0.9,
                 message = ''Distress indicators detected: '' @ join '', '' distress_indicators,
                 detection_method = ''rule_based'', timestamp = now,
                 details = DistressDetails distress_indicators True\<rparr>
         else None)"


section \<open>Predicates and concrete inputs of the statements\<close>

subsection \<open>Zone store\<close>






definition triangle_data :: zone_data where
  "triangle_data =
     \<lparr>zd_name = None, zd_type = None,
      zd_coordinates = Some [vertex 0 0, vertex 0 1, vertex 1 0], zd_risk_level = None\<rparr>"

subsection \<open>Detectors\<close>

definition imu_sample :: "real \<Rightarrow> real \<Rightarrow> real \<Rightarrow> pydict" where
  "imu_sample ax ay az =
     [(''acceleration_x'', ax), (''acceleration_y'', ay), (''acceleration_z'', az)]"

text \<open>Ten samples of magnitude 1, five of magnitude 25, fifteen of magnitude 10.\<close>

definition synthetic_fall :: "pydict list" where
  "synthetic_fall =
     replicate 10 (imu_sample 0 0 1) @ replicate 5 (imu_sample 0 0 25)
       @ replicate 15 (imu_sample 0 0 10)"

text \<open>A sequence the three windows do match: two impact samples, then low magnitudes.\<close>

definition short_impact_fall :: "pydict list" where
  "short_impact_fall =
     replicate 10 (imu_sample 0 0 1) @ replicate 2 (imu_sample 0 0 25)
       @ replicate 18 (imu_sample 0 0 1)"

text \<open>Exactly ten samples: three low, two high, five low.\<close>

definition ten_samples :: "pydict list" where
  "ten_samples =
     replicate 3 (imu_sample 0 0 1) @ replicate 2 (imu_sample 0 0 25)
       @ replicate 5 (imu_sample 0 0 1)"

text \<open>The location history never exceeds 100 entries, for any user.\<close>

definition locations_capped :: "user_data_buffer \<Rightarrow> bool" where
  "locations_capped buf = (\<forall>u b. buf u = Some b \<longrightarrow> length (locations b) \<le> 100)"

definition still_location :: pydict where
  "still_location = [(''latitude'', 26.9), (''longitude'', 75.8)]"

definition loc_sd :: sensor_data where
  "loc_sd = \<lparr>imu_data = [], location = still_location\<rparr>"

definition empty_sd :: sensor_data where
  "empty_sd = \<lparr>imu_data = [], location = []\<rparr>"

text \<open>Five buffered entries one second apart whose locations carry the given speeds.\<close>

definition speed_buffer :: "real list \<Rightarrow> user_data_buffer" where
  "speed_buffer vs =
     [''u'' \<mapsto>
        \<lparr>data_history =
           map (\<lambda>(t, v). \<lparr>h_timestamp = t,
                           h_sensor_data = \<lparr>imu_data = [],
                                             location = still_location @ [(''speed'', v)]\<rparr>\<rparr>)
             (zip [1, 2, 3, 4, 5] vs),
         locations = [], last_activity = 5\<rparr>]"

definition spike_sd :: sensor_data where
  "spike_sd = \<lparr>imu_data = [imu_sample 0 0 30], location = still_location @ [(''speed'', 10)]\<rparr>"

text \<open>A user who stayed at one place for five hours, with one long gap in the data.\<close>

definition stranded_buffer :: user_data_buffer where
  "stranded_buffer =
     [''u'' \<mapsto>
        \<lparr>data_history =
           map (\<lambda>t. \<lparr>h_timestamp = t, h_sensor_data = empty_sd\<rparr>) [0, 100, 200, 300, 18000],
         locations = [\<lparr>l_timestamp = 0, l_location = still_location\<rparr>,
                      \<lparr>l_timestamp = 18000, l_location = still_location\<rparr>],
         last_activity = 18000\<rparr>]"

text \<open>
  The four indicators as the detector evaluates them (the third only when the sensor
  data carries a location), how many hold, and the sum of their increments.
\<close>

definition distress_indicator_flags ::
    "distress_thresholds \<Rightarrow> user_data_buffer \<Rightarrow> string \<Rightarrow> sensor_data \<Rightarrow> bool \<times> bool \<times> bool \<times> bool" where
  "distress_indicator_flags th buf uid sd =
     (check_prolonged_inactivity buf uid (stationary_duration th),
      check_erratic_movement buf uid,
      location sd \<noteq> [] \<and> check_unusual_location buf uid (location sd),
      check_signal_loss_pattern buf uid)"

fun indicators_true :: "bool \<times> bool \<times> bool \<times> bool \<Rightarrow> nat" where
  "indicators_true (inactive, erratic, unusual, signal_loss) =
     length (filter id [inactive, erratic, unusual, signal_loss])"

fun confidence_sum :: "bool \<times> bool \<times> bool \<times> bool \<Rightarrow> real" where
  "confidence_sum (inactive, erratic, unusual, signal_loss) =
     (if inactive then 0.3 else 0) + (if erratic then 0.2 else 0)
       + (if unusual then 0.3 else 0) + (if signal_loss then 0.2 else 0)"


section \<open>Verification: the zone store\<close>

subsection \<open>Removal and id assignment\<close>

text \<open>
  C9. \<open>remove_zone\<close> always reports success; removing the same id a second time leaves
  the list as the first removal left it; and removing an id that no zone carries leaves
  the list unchanged.
\<close>

theorem remove_zone_idempotent:
  "fst (remove_zone red_zones zid) = True
   \<and> snd (remove_zone (snd (remove_zone red_zones zid)) zid) = snd (remove_zone red_zones zid)
   \<and> (zid \<notin> rz_id ` set red_zones \<longrightarrow> snd (remove_zone red_zones zid) = red_zones)"
proof (intro conjI impI)
  show "fst (remove_zone red_zones zid) = True"
    by (simp add: remove_zone_def)
  show "snd (remove_zone (snd (remove_zone red_zones zid)) zid) = snd (remove_zone red_zones zid)"
    by (simp add: remove_zone_def)
  assume "zid \<notin> rz_id ` set red_zones"
  then have "\<forall>zone\<in>set red_zones. rz_id zone \<noteq> zid"
    by auto
  then show "snd (remove_zone red_zones zid) = red_zones"
    by (simp add: remove_zone_def filter_id_conv)
qed

text \<open>Removing the absent id 9 from the seeded store succeeds and changes nothing.\<close>

theorem remove_zone_idempotent_witness:
  "9 \<notin> rz_id ` set seed_zones \<and> remove_zone seed_zones 9 = (True, seed_zones)"
  using remove_zone_idempotent [of seed_zones 9]
  by (simp add: seed_zones_def remove_zone_def)

text \<open>
  C2. In the seeded store, removing zone 1 and then adding a triangle succeeds and gives
  the new zone the id 4, which the fourth seeded zone still carries: the ids of the store
  are 2, 3, 4, 4.
\<close>

theorem add_zone_after_remove_duplicates_id:
  "fst (add_zone (snd (remove_zone seed_zones 1)) triangle_data) = True
   \<and> map rz_id (snd (add_zone (snd (remove_zone seed_zones 1)) triangle_data)) = [2, 3, 4, 4]"
  by (simp add: add_zone_def remove_zone_def seed_zones_def triangle_data_def)

subsection \<open>Ray casting never reads an unbound \<open>xinters\<close>\<close>





subsection \<open>First match wins\<close>







subsection \<open>Polygons with fewer than three vertices\<close>

text \<open>\<open>GeoUtils.point_in_polygon\<close> answers from its guard, before any vertex is read.\<close>

lemma point_in_polygon_guard:
  "length polygon < 3 \<Longrightarrow> point_in_polygon lat lon polygon = False"
  by (simp add: point_in_polygon_def)


text \<open>
  \<open>check_point_in_polygon\<close> catches that exception: a zone with an empty polygon makes
  it return \<open>False\<close>, whatever the zones listed after it are.
\<close>

lemma check_point_in_polygon_empty_polygon:
  "coordinates zone = [] \<Longrightarrow> check_point_in_polygon (zone # rest) lat lng = False"
  by (simp add: check_point_in_polygon_def point_in_polygon_ray_casting_def)


section \<open>Verification: the fall detector\<close>

lemma magnitude_z: "magnitude (imu_sample 0 0 z) = Inr \<bar>z\<bar>"
  by (simp add: magnitude_def imu_sample_def getitem_def py_sqrt_def)

lemma magnitudes_append:
  "magnitudes (xs @ ys) =
     (case magnitudes xs of Inl e \<Rightarrow> Inl e | Inr a \<Rightarrow>
      case magnitudes ys of Inl e \<Rightarrow> Inl e | Inr b \<Rightarrow> Inr (a @ b))"
  by (induction xs) (auto split: sum.splits)

lemma magnitudes_replicate:
  "magnitude s = Inr m \<Longrightarrow> magnitudes (replicate n s) = Inr (replicate n m)"
  by (induction n) auto

lemma magnitudes_length: "magnitudes imu = Inr ms \<Longrightarrow> length ms = length imu"
  by (induction imu arbitrary: ms) (auto split: sum.splits)

lemma magnitudes_synthetic_fall:
  "magnitudes synthetic_fall = Inr (replicate 10 1 @ replicate 5 25 @ replicate 15 10)"
  by (simp add: synthetic_fall_def magnitudes_append magnitudes_replicate [OF magnitude_z])

text \<open>
  At the offsets 6 and 7 the freefall and impact windows match, but the five samples
  after them are 25 or 10, not below 2; no other offset passes the first two phases.
\<close>

lemma fall_scan_synthetic_fall:
  "fall_scan fall_thresholds_init (replicate 10 1 @ replicate 5 25 @ replicate 15 10) [0 ..< 25]
     = (False, 0)"
  by code_simp

text \<open>
  C1. On the sequence of 30 samples (10 of magnitude 1, 5 of magnitude 25, 15 of magnitude
  10) and the initialized thresholds, the fall detector returns no alert.
\<close>

theorem synthetic_fall_not_detected:
  "detect_fall_rule_based fall_thresholds_init uid now synthetic_fall = None"
  using fall_scan_synthetic_fall
  by (simp add: detect_fall_rule_based_def magnitudes_synthetic_fall)

text \<open>
  The detector does fire, with confidence 0.75, when the impact lasts two samples and the
  samples after it are below the stillness threshold.
\<close>

lemma magnitudes_short_impact_fall:
  "magnitudes short_impact_fall = Inr (replicate 10 1 @ replicate 2 25 @ replicate 18 1)"
  by (simp add: short_impact_fall_def magnitudes_append magnitudes_replicate [OF magnitude_z])

lemma fall_scan_short_impact_fall:
  "fall_scan fall_thresholds_init (replicate 10 1 @ replicate 2 25 @ replicate 18 1) [0 ..< 25]
     = (True, 0.75)"
  by code_simp

lemma py_max_short_impact_fall:
  "py_max (replicate 10 1 @ replicate 2 25 @ replicate 18 1) = Inr 25"
  by code_simp

lemma py_min_short_impact_fall:
  "py_min (replicate 10 1 @ replicate 2 25 @ replicate 18 1) = Inr 1"
  by code_simp

lemma short_impact_fall_detected:
  "detect_fall_rule_based fall_thresholds_init uid now short_impact_fall =
     Some \<lparr>user_id = uid, alert_type = ''fall_detected'', priority = ''critical'',
           confidence = 0.75, message = ''Fall detected using rule-based system'',
           detection_method = ''rule_based'', timestamp = now,
           details = FallDetails 25 1 ''freefall_impact_stillness''\<rparr>"
proof -
  have "length short_impact_fall = 30"
    by (simp add: short_impact_fall_def)
  then show ?thesis
    using fall_scan_short_impact_fall py_max_short_impact_fall py_min_short_impact_fall
    by (simp add: detect_fall_rule_based_def magnitudes_short_impact_fall)
qed

lemma fall_scan_no_stillness_window:
  "\<forall>i\<in>set idxs. \<not> i + 10 < length ms \<Longrightarrow> fall_scan th ms idxs = (False, 0)"
  by (induction idxs) auto

text \<open>
  C10. On fewer than 11 samples the fall detector returns no alert, for all thresholds
  and all sample values (also samples that lack a key): the stillness phase is only
  looked at when the start offset plus 10 is below the number of samples.
\<close>

theorem detect_fall_needs_eleven_samples:
  assumes "length imu < 11"
  shows "detect_fall_rule_based th uid now imu = None"
proof (cases "magnitudes imu")
  case (Inl e)
  then show ?thesis by (simp add: detect_fall_rule_based_def)
next
  case (Inr ms)
  with assms have "\<forall>i\<in>set [0 ..< length ms - 5]. \<not> i + 10 < length ms"
    using magnitudes_length by auto
  then have "fall_scan th ms [0 ..< length ms - 5] = (False, 0)"
    by (rule fall_scan_no_stillness_window)
  with Inr show ?thesis by (simp add: detect_fall_rule_based_def)
qed

text \<open>Ten samples with a full freefall, impact and stillness pattern give no alert.\<close>

theorem detect_fall_needs_eleven_samples_witness:
  "length ten_samples = 10
   \<and> detect_fall_rule_based fall_thresholds_init ''u'' 0 ten_samples = None"
  using detect_fall_needs_eleven_samples [of ten_samples fall_thresholds_init "''u''" 0]
  by (simp add: ten_samples_def)

text \<open>The same pattern with one more sample is detected: the bound 11 is exact.\<close>

lemma magnitudes_eleven_samples:
  "magnitudes (ten_samples @ [imu_sample 0 0 1])
     = Inr (replicate 3 1 @ replicate 2 25 @ replicate 5 1 @ [1])"
  by (simp add: ten_samples_def magnitudes_append magnitudes_replicate [OF magnitude_z]
        magnitude_z)

lemma fall_scan_eleven_samples:
  "fall_scan fall_thresholds_init (replicate 3 1 @ replicate 2 25 @ replicate 5 1 @ [1]) [0 ..< 6]
     = (True, 0.75)"
  by code_simp

lemma eleven_samples_detected:
  "detect_fall_rule_based fall_thresholds_init ''u'' 0 (ten_samples @ [imu_sample 0 0 1]) \<noteq> None"
proof -
  have "length ten_samples = 10"
    by (simp add: ten_samples_def)
  moreover have "\<exists>mx. py_max (replicate 3 1 @ replicate 2 25 @ replicate 5 1 @ [1]) = Inr mx"
    by (simp add: py_max_def split: list.splits)
  moreover have "\<exists>mn. py_min (replicate 3 1 @ replicate 2 25 @ replicate 5 1 @ [1]) = Inr mn"
    by (simp add: py_min_def split: list.splits)
  ultimately show ?thesis
    using fall_scan_eleven_samples
    by (auto simp: detect_fall_rule_based_def magnitudes_eleven_samples)
qed


section \<open>Verification: the per-user buffer\<close>

lemma length_lastn: "length (lastn n xs) \<le> n"
  by (simp add: lastn_def)

text \<open>
  C3, as the code has it. After an update, the updated user's sensor-data history holds
  only entries younger than 24 hours, and it has no count cap: when every earlier entry is
  that young, the history is one entry longer than before. The location history of every
  user stays within 100 entries; it has no age cutoff.
\<close>

theorem update_user_buffer_bounds:
  assumes "locations_capped buf"
  shows "locations_capped (update_user_buffer buf uid now sd)
     \<and> (\<exists>b'. update_user_buffer buf uid now sd uid = Some b'
            \<and> list_all (\<lambda>item. now - 24 * 3600 < h_timestamp item) (data_history b')
            \<and> (list_all (\<lambda>item. now - 24 * 3600 < h_timestamp item)
                   (fst (get_user_history buf uid))
                 \<longrightarrow> length (data_history b') = length (fst (get_user_history buf uid)) + 1))"
proof (intro conjI)
  show "locations_capped (update_user_buffer buf uid now sd)"
    using assms unfolding locations_capped_def update_user_buffer_def
    by (auto simp: Let_def length_lastn split: option.splits)
  show "\<exists>b'. update_user_buffer buf uid now sd uid = Some b'
            \<and> list_all (\<lambda>item. now - 24 * 3600 < h_timestamp item) (data_history b')
            \<and> (list_all (\<lambda>item. now - 24 * 3600 < h_timestamp item)
                   (fst (get_user_history buf uid))
                 \<longrightarrow> length (data_history b') = length (fst (get_user_history buf uid)) + 1)"
    unfolding update_user_buffer_def get_user_history_def
    by (auto simp: Let_def list_all_iff filter_id_conv split: option.splits)
qed

text \<open>The first update of a user, on the empty buffer.\<close>

theorem update_user_buffer_bounds_witness:
  "locations_capped Map.empty
   \<and> locations_capped (update_user_buffer Map.empty ''u'' 0 loc_sd)
   \<and> map h_timestamp (fst (get_user_history (update_user_buffer Map.empty ''u'' 0 loc_sd) ''u''))
       = [0]"
  using update_user_buffer_bounds [of Map.empty "''u''" 0 loc_sd]
  by (simp add: locations_capped_def update_user_buffer_def get_user_history_def Let_def)

text \<open>
  Two updates 25 hours apart, both with a location: the location history still holds the
  entry of the first, which is older than 24 hours.
\<close>

theorem update_user_buffer_keeps_old_location:
  "map l_timestamp
     (snd (get_user_history
        (update_user_buffer (update_user_buffer Map.empty ''u'' 0 loc_sd) ''u'' 90000 loc_sd)
        ''u'')) = [0, 90000]
   \<and> \<not> list_all (\<lambda>l. 90000 - 24 * 3600 < l_timestamp l)
     (snd (get_user_history
        (update_user_buffer (update_user_buffer Map.empty ''u'' 0 loc_sd) ''u'' 90000 loc_sd)
        ''u''))"
  by (simp add: update_user_buffer_def get_user_history_def loc_sd_def still_location_def
        lastn_def)


section \<open>Verification: the crash detector\<close>

text \<open>
  C5. When the largest of the recent speeds is below \<open>min_vehicle_speed\<close>, the crash
  detector returns no alert, whatever the speeds' change and the IMU samples are.
\<close>

theorem crash_vehicle_context_gate:
  assumes "max_recent_speed (recent_speeds (get_recent_user_data buf uid now 30))
             < min_vehicle_speed th"
  shows "detect_crash_rule_based th buf uid now sd = None"
  using assms by (simp add: detect_crash_rule_based_def Let_def)

text \<open>Five recent entries at 10 km/h and an IMU sample of magnitude 30.\<close>

theorem crash_vehicle_context_gate_witness:
  "max_recent_speed (recent_speeds
       (get_recent_user_data (speed_buffer [10, 10, 10, 10, 10]) ''u'' 6 30)) = 10
   \<and> min_vehicle_speed crash_thresholds_init = 25
   \<and> detect_crash_rule_based crash_thresholds_init (speed_buffer [10, 10, 10, 10, 10]) ''u'' 6
        spike_sd = None"
  using crash_vehicle_context_gate
          [of "speed_buffer [10, 10, 10, 10, 10]" "''u''" 6 crash_thresholds_init spike_sd]
  by (simp add: speed_buffer_def get_recent_user_data_def recent_speeds_def lastn_def
        max_recent_speed_def py_max_def get_default_def crash_thresholds_init_def
        still_location_def)

text \<open>The same IMU sample after a drop from 80 to 0 km/h is reported as a crash.\<close>

lemma crash_detected_example:
  "detect_crash_rule_based crash_thresholds_init (speed_buffer [80, 60, 40, 20, 0]) ''u'' 6
      spike_sd =
     Some \<lparr>user_id = ''u'', alert_type = ''crash_detected'', priority = ''critical'',
           confidence = 0.8, message = ''Vehicle crash detected using rule-based system'',
           detection_method = ''rule_based'', timestamp = 6,
           details = CrashDetails 30 (- 57.6) 80 0\<rparr>"
  by (simp add: detect_crash_rule_based_def speed_buffer_def get_recent_user_data_def
        recent_speeds_def lastn_def max_recent_speed_def py_max_def get_default_def
        crash_thresholds_init_def spike_sd_def imu_sample_def magnitude_def getitem_def
        py_sqrt_def still_location_def)


section \<open>Verification: the distress detector\<close>

text \<open>
  C4. The distress detector returns an alert exactly when at least two indicators hold or
  the sum of their increments exceeds 0.5, and no alert otherwise; the alert is a
  \<open>distress_detected\<close> alert whose confidence is the sum capped at 0.9.
\<close>

theorem distress_trigger_rule:
  "(detect_distress_rule_based th buf uid now sd = None
      \<longleftrightarrow> \<not> (2 \<le> indicators_true (distress_indicator_flags th buf uid sd)
              \<or> 0.5 < confidence_sum (distress_indicator_flags th buf uid sd)))
   \<and> (case detect_distress_rule_based th buf uid now sd of
        None \<Rightarrow> True
      | Some a \<Rightarrow> alert_type a = ''distress_detected''
                  \<and> confidence a = min (confidence_sum (distress_indicator_flags th buf uid sd)) 0.9)"
  unfolding detect_distress_rule_based_def distress_indicator_flags_def
  by (cases "check_prolonged_inactivity buf uid (stationary_duration th)";
      cases "check_erratic_movement buf uid";
      cases "check_unusual_location buf uid (location sd)";
      cases "check_signal_loss_pattern buf uid";
      cases "location sd = []";
      simp add: add_indicator_def Let_def)

lemma calculate_distance_same_point: "calculate_distance la lo la lo = Inr 0"
  by (simp add: calculate_distance_def py_sqrt_def atan2_def)

lemma stranded_flags:
  "distress_indicator_flags distress_thresholds_init stranded_buffer ''u'' empty_sd
     = (True, False, False, True)"
  by (simp add: distress_indicator_flags_def stranded_buffer_def check_prolonged_inactivity_def
        check_prolonged_inactivity_try_def get_user_history_def lastn_def still_location_def
        getitem_def calculate_distance_same_point distress_thresholds_init_def
        check_erratic_movement_def check_erratic_movement_try_def
        check_signal_loss_pattern_def empty_sd_def)

text \<open>
  Five hours at one place and a gap of almost five hours in the data: two indicators,
  the sum 0.5, and an alert of confidence 0.5.
\<close>

theorem distress_trigger_rule_witness:
  "indicators_true (distress_indicator_flags distress_thresholds_init stranded_buffer ''u'' empty_sd) = 2
   \<and> confidence_sum (distress_indicator_flags distress_thresholds_init stranded_buffer ''u'' empty_sd) = 0.5
   \<and> detect_distress_rule_based distress_thresholds_init stranded_buffer ''u'' 18000 empty_sd
     = Some \<lparr>user_id = ''u'', alert_type = ''distress_detected'', priority = ''medium'',
             confidence = 0.5,
             message = ''Distress indicators detected: prolonged_inactivity, signal_loss_pattern'',
             detection_method = ''rule_based'', timestamp = 18000,
             details = DistressDetails [''prolonged_inactivity'', ''signal_loss_pattern''] True\<rparr>"
  using distress_trigger_rule [of distress_thresholds_init stranded_buffer "''u''" 18000 empty_sd]
    stranded_flags
  by (simp add: distress_indicator_flags_def detect_distress_rule_based_def add_indicator_def
        empty_sd_def)

end
